theory Spec2Isabelle
  imports Complex_Main
begin

section \<open>The session data of \<open>Store\<close> (src/js/app.js)\<close>

text \<open>
  The counters of a player and of a team are JavaScript numbers that the code only ever
  increments by 1, 2 or 3 from 0; they are modelled as \<open>int\<close>. (A counter is at most the
  number of entries pushed to the log and \<open>pts\<close> at most three times that, far below
  \<open>2^53\<close>, where the arithmetic of doubles on integers is exact.) Fields that several
  objects of the source share by name (\<open>id\<close>, \<open>name\<close>, \<open>team\<close>, \<open>quarter\<close>) carry a
  prefix here, since record fields live in one name space.
\<close>

record stats =
  pts :: int
  fg2m :: int
  fg2a :: int
  fg3m :: int
  fg3a :: int
  ftm :: int
  fta :: int
  orb :: int
  drb :: int
  ast :: int
  stl :: int
  blk :: int
  tov :: int
  pf :: int
  ofd :: int
  time :: int

record player =
  p_id :: string
  number :: string
  p_name :: string
  p_team :: string
  active :: bool
  stats :: stats

record team =
  t_id :: string
  t_name :: string
  score :: int
  fouls :: int
  color :: "string option"

record teams =
  home :: team
  visitor :: team

text \<open>
  A log entry. \<open>e_id\<close> is the reading of \<open>Date.now()\<close>, \<open>gameTime\<close> the string of
  \<open>Timer.getTimeStr()\<close>; \<open>xy\<close> is the spread \<open>...extraData\<close>, which is \<open>{}\<close>
  (\<open>None\<close>) or \<open>{x, y}\<close> at the call sites of \<open>UI.processAction\<close>. The coordinates are
  stored and never computed with.
\<close>

record log_entry =
  e_id :: int
  playerId :: string
  e_team :: string
  action :: string
  e_quarter :: int
  gameTime :: string
  xy :: "(real \<times> real) option"

record data =
  gameId :: "int option"
  date :: "string option"
  teams :: teams
  players :: "player list"
  log :: "log_entry list"
  quarter :: int
  gameActive :: bool

text \<open>
  What \<open>JSON.parse\<close> can give for a snapshot: \<open>Session d\<close> is an object with the
  fields of a session, of the types of the record \<open>data\<close> (whatever their values);
  \<open>Malformed\<close> is a value on which \<open>teams.home\<close>, \<open>teams.visitor\<close> or
  \<open>players.filter\<close> cannot be read: \<open>null\<close>, or a value whose \<open>teams\<close>,
  \<open>teams.home\<close> or \<open>teams.visitor\<close> is missing or \<open>null\<close>, or whose \<open>players\<close> is
  no array; a number, a string, a boolean, an array and \<open>{}\<close> are among them. Values in
  between (these parts present, another field missing or of another type) are not
  modelled.
\<close>

datatype js_value = Session data | Malformed

text \<open>
  The item \<open>basketStats_v2\<close> of \<open>localStorage\<close>, seen through what \<open>Store.init\<close>
  does with it: \<open>Absent\<close> is no item (\<open>getItem\<close> gives \<open>null\<close>), \<open>Empty\<close> the empty
  string, \<open>Corrupt\<close> a non-empty text on which \<open>JSON.parse\<close> throws, \<open>Parses v\<close> a text
  that \<open>JSON.parse\<close> turns into the value \<open>v\<close>. \<open>JSON.stringify\<close> of the session data
  (strings, booleans, \<open>null\<close>, finite numbers, arrays and plain objects) followed by
  \<open>JSON.parse\<close> gives the data back, so \<open>save\<close> stores \<open>Parses\<close> of the current
  session; the storage is taken to accept the write.
\<close>

datatype stored = Absent | Empty | Corrupt | Parses js_value

record store =
  data :: data
  saved :: stored

text \<open>
  How a call ends: it returns, or an exception leaves it. The exceptions of the modelled
  code are the \<open>TypeError\<close> of reading a property of \<open>undefined\<close> or \<open>null\<close> and the
  \<open>SyntaxError\<close> of \<open>JSON.parse\<close>.
\<close>

datatype js_error = TypeError | SyntaxError

datatype outcome = Returned | Threw js_error

section \<open>Store\<close>

text \<open>The object literal \<open>Store.data\<close> is initialised with when the script loads.\<close>

definition initial_data :: data where
  "initial_data =
     \<lparr>gameId = None, date = None,
      teams = \<lparr>home = \<lparr>t_id = ''home'', t_name = ''LOCAL'', score = 0, fouls = 0,
                         color = Some ''#000000''\<rparr>,
               visitor = \<lparr>t_id = ''visitor'', t_name = ''VISITANTE'', score = 0, fouls = 0,
                            color = Some ''#000000''\<rparr>\<rparr>,
      players = [], log = [], quarter = 1, gameActive = False\<rparr>"

definition save :: "store \<Rightarrow> store" where
  "save s = s\<lparr>saved := Parses (Session (data s))\<rparr>"

text \<open>\<open>reset\<close>: \<open>now\<close> is \<open>Date.now()\<close>, \<open>stamp\<close> is \<open>new Date().toISOString()\<close>.\<close>

definition reset :: "int \<Rightarrow> string \<Rightarrow> store \<Rightarrow> store" where
  "reset now stamp s =
     save (s\<lparr>data :=
       \<lparr>gameId = Some now, date = Some stamp,
        teams = \<lparr>home = \<lparr>t_id = ''home'', t_name = ''LOCAL'', score = 0, fouls = 0,
                           color = None\<rparr>,
                 visitor = \<lparr>t_id = ''visitor'', t_name = ''VISITANTE'', score = 0,
                              fouls = 0, color = None\<rparr>\<rparr>,
        players = [], log = [], quarter = 1, gameActive = False\<rparr>\<rparr>)"

text \<open>
  \<open>if (saved)\<close>: \<open>null\<close> and the empty string are falsy. \<open>JSON.parse\<close> turns its
  argument into a string first, so \<open>null\<close> would parse to \<open>null\<close>; the empty string
  does not parse.
\<close>

definition truthy_item :: "stored \<Rightarrow> bool" where
  "truthy_item item \<longleftrightarrow> item \<noteq> Absent \<and> item \<noteq> Empty"

definition JSON_parse :: "stored \<Rightarrow> js_error + js_value" where
  "JSON_parse item =
     (case item of
        Absent \<Rightarrow> Inr Malformed
      | Empty \<Rightarrow> Inl SyntaxError
      | Corrupt \<Rightarrow> Inl SyntaxError
      | Parses v \<Rightarrow> Inr v)"

text \<open>
  The page after \<open>Store.init\<close>: \<open>Running s\<close> when \<open>Store.data\<close> is a session, with
  the store \<open>s\<close>; \<open>Stuck item\<close> when \<open>Store.data\<close> is a malformed value, with the
  storage as it is.
\<close>

datatype page = Running store | Stuck stored

text \<open>
  \<open>init\<close>: a falsy item resets. Otherwise \<open>this.data = JSON.parse(saved)\<close> runs inside
  \<open>try\<close>: the value that parses replaces \<open>this.data\<close>, whatever it is; an exception of
  \<open>JSON.parse\<close> goes to \<open>catch (e)\<close>, which reports it on the console and leaves
  \<open>this.data\<close> as it is. Nothing is thrown on, so the call returns on every path.
\<close>

definition init :: "int \<Rightarrow> string \<Rightarrow> store \<Rightarrow> outcome \<times> page" where
  "init now stamp s =
     (if truthy_item (saved s) then
        (case JSON_parse (saved s) of
           Inr (Session v) \<Rightarrow> (Returned, Running (s\<lparr>data := v\<rparr>))
         | Inr Malformed \<Rightarrow> (Returned, Stuck (saved s))
         | Inl e \<Rightarrow> (Returned, Running s))
      else (Returned, Running (reset now stamp s)))"

definition createEmptyStats :: stats where
  "createEmptyStats =
     \<lparr>pts = 0, fg2m = 0, fg2a = 0, fg3m = 0, fg3a = 0, ftm = 0, fta = 0, orb = 0, drb = 0,
      ast = 0, stl = 0, blk = 0, tov = 0, pf = 0, ofd = 0, time = 0\<rparr>"

text \<open>
  \<open>addPlayer\<close>: \<open>newId\<close> is the string the clock and \<open>Math.random()\<close> give for the id.
\<close>

definition addPlayer :: "string \<Rightarrow> string \<Rightarrow> string \<Rightarrow> string \<Rightarrow> store \<Rightarrow> store" where
  "addPlayer num nm teamId newId s =
     save (s\<lparr>data := (data s)\<lparr>players := players (data s) @
        [\<lparr>p_id = newId, number = num, p_name = nm, p_team = teamId, active = False,
          stats = createEmptyStats\<rparr>]\<rparr>\<rparr>)"

text \<open>
  \<open>Array.prototype.find\<close> returns the first element that satisfies the predicate; the
  object it returns is the one stored in the array, so the model keeps its position.
\<close>

fun findIndex :: "('a \<Rightarrow> bool) \<Rightarrow> 'a list \<Rightarrow> nat option" where
  "findIndex P [] = None"
| "findIndex P (x # xs) = (if P x then Some 0 else map_option Suc (findIndex P xs))"

definition togglePlayerActive :: "string \<Rightarrow> store \<Rightarrow> store" where
  "togglePlayerActive pid s =
     (case findIndex (\<lambda>pl. p_id pl = pid) (players (data s)) of
        None \<Rightarrow> s
      | Some i \<Rightarrow>
          save (s\<lparr>data := (data s)\<lparr>players := (players (data s))
            [i := (players (data s) ! i)\<lparr>active := \<not> active (players (data s) ! i)\<rparr>]\<rparr>\<rparr>))"

text \<open>
  \<open>this.data.teams[teamKey]\<close>: the own properties of the object are \<open>home\<close> and
  \<open>visitor\<close>.
\<close>

definition teams_get :: "teams \<Rightarrow> string \<Rightarrow> team option" where
  "teams_get ts k =
     (if k = ''home'' then Some (home ts)
      else if k = ''visitor'' then Some (visitor ts)
      else None)"

definition teams_put :: "string \<Rightarrow> team \<Rightarrow> teams \<Rightarrow> teams" where
  "teams_put k t ts =
     (if k = ''home'' then ts\<lparr>home := t\<rparr>
      else if k = ''visitor'' then ts\<lparr>visitor := t\<rparr>
      else ts)"

text \<open>A statement that writes the stats object \<open>s\<close> of the player at position \<open>i\<close>.\<close>

definition on_stats :: "nat \<Rightarrow> (stats \<Rightarrow> stats) \<Rightarrow> data \<Rightarrow> data" where
  "on_stats i f d =
     d\<lparr>players := (players d)[i := (players d ! i)\<lparr>stats := f (stats (players d ! i))\<rparr>]\<rparr>"

text \<open>
  A statement that writes \<open>this.data.teams[teamKey]\<close>. For a key that is no own
  property the lookup goes to the prototype chain: it gives \<open>undefined\<close>, and the
  statement throws, or it gives an inherited object (for a key such as \<open>constructor\<close>),
  and the statement writes to that object and returns. Neither changes the session
  data, and what the statements before it wrote stays written. Which of the two happens
  depends on the prototype chain at that moment, which is outside the session; like a clock
  reading, it is given to the model with the call (\<open>foreign\<close>).
\<close>

definition on_team :: "string \<Rightarrow> (team \<Rightarrow> team) \<Rightarrow> outcome \<Rightarrow> data \<Rightarrow> outcome \<times> data" where
  "on_team k f foreign d =
     (case teams_get (teams d) k of
        None \<Rightarrow> (foreign, d)
      | Some t \<Rightarrow> (Returned, d\<lparr>teams := teams_put k (f t) (teams d)\<rparr>))"

text \<open>
  \<open>updateStats(player, action)\<close>, the player given by its position in \<open>data.players\<close>.
  The \<open>switch\<close> compares the action with each case in turn and has no default. (An
  action that is \<open>undefined\<close> matches no case, as every string outside the fourteen.)
  \<open>foreign\<close> goes to the four statements that write the team.
\<close>

definition updateStats :: "nat \<Rightarrow> string \<Rightarrow> outcome \<Rightarrow> data \<Rightarrow> outcome \<times> data" where
  "updateStats i act foreign d =
     (let teamKey = p_team (players d ! i) in
      if act = ''fg2m'' then
        on_team teamKey (\<lambda>t. t\<lparr>score := score t + 2\<rparr>) foreign
          (on_stats i (\<lambda>s. s\<lparr>fg2m := fg2m s + 1, fg2a := fg2a s + 1, pts := pts s + 2\<rparr>) d)
      else if act = ''fg2a'' then (Returned, on_stats i (\<lambda>s. s\<lparr>fg2a := fg2a s + 1\<rparr>) d)
      else if act = ''fg3m'' then
        on_team teamKey (\<lambda>t. t\<lparr>score := score t + 3\<rparr>) foreign
          (on_stats i (\<lambda>s. s\<lparr>fg3m := fg3m s + 1, fg3a := fg3a s + 1, pts := pts s + 3\<rparr>) d)
      else if act = ''fg3a'' then (Returned, on_stats i (\<lambda>s. s\<lparr>fg3a := fg3a s + 1\<rparr>) d)
      else if act = ''ftm'' then
        on_team teamKey (\<lambda>t. t\<lparr>score := score t + 1\<rparr>) foreign
          (on_stats i (\<lambda>s. s\<lparr>ftm := ftm s + 1, fta := fta s + 1, pts := pts s + 1\<rparr>) d)
      else if act = ''fta'' then (Returned, on_stats i (\<lambda>s. s\<lparr>fta := fta s + 1\<rparr>) d)
      else if act = ''orb'' then (Returned, on_stats i (\<lambda>s. s\<lparr>orb := orb s + 1\<rparr>) d)
      else if act = ''drb'' then (Returned, on_stats i (\<lambda>s. s\<lparr>drb := drb s + 1\<rparr>) d)
      else if act = ''ast'' then (Returned, on_stats i (\<lambda>s. s\<lparr>ast := ast s + 1\<rparr>) d)
      else if act = ''stl'' then (Returned, on_stats i (\<lambda>s. s\<lparr>stl := stl s + 1\<rparr>) d)
      else if act = ''blk'' then (Returned, on_stats i (\<lambda>s. s\<lparr>blk := blk s + 1\<rparr>) d)
      else if act = ''tov'' then (Returned, on_stats i (\<lambda>s. s\<lparr>tov := tov s + 1\<rparr>) d)
      else if act = ''pf'' then
        on_team teamKey (\<lambda>t. t\<lparr>fouls := fouls t + 1\<rparr>) foreign
          (on_stats i (\<lambda>s. s\<lparr>pf := pf s + 1\<rparr>) d)
      else if act = ''ofd'' then (Returned, on_stats i (\<lambda>s. s\<lparr>ofd := ofd s + 1\<rparr>) d)
      else (Returned, d))"

text \<open>
  \<open>recordAction\<close>: \<open>now\<close> is \<open>Date.now()\<close> and \<open>clock\<close> is \<open>Timer.getTimeStr()\<close> at
  the call. The entry is pushed before \<open>updateStats\<close> runs; \<open>save\<close> runs only when
  \<open>updateStats\<close> returned.
\<close>

definition recordAction ::
    "string \<Rightarrow> string \<Rightarrow> (real \<times> real) option \<Rightarrow> int \<Rightarrow> string \<Rightarrow> outcome \<Rightarrow> store
      \<Rightarrow> outcome \<times> store" where
  "recordAction pid actionType extraData now clock foreign s =
     (case findIndex (\<lambda>pl. p_id pl = pid) (players (data s)) of
        None \<Rightarrow> (Returned, s)
      | Some i \<Rightarrow>
          (let d = data s;
               logEntry = \<lparr>e_id = now, playerId = pid, e_team = p_team (players d ! i),
                           action = actionType, e_quarter = quarter d, gameTime = clock,
                           xy = extraData\<rparr>;
               d1 = d\<lparr>log := log d @ [logEntry]\<rparr>
           in case updateStats i actionType foreign d1 of
                (Threw e, d2) \<Rightarrow> (Threw e, s\<lparr>data := d2\<rparr>)
              | (Returned, d2) \<Rightarrow> (Returned, save (s\<lparr>data := d2\<rparr>))))"

section \<open>The global functions of the page\<close>

text \<open>
  \<open>window.adjustScore\<close>: the guard is the truthiness of \<open>Store.data.teams[team]\<close>; the
  score is floored at 0. For a key that is no own property, \<open>truthy\<close> tells whether the
  prototype chain gives an object; the assignment then goes to that object.
\<close>

definition adjustScore :: "string \<Rightarrow> int \<Rightarrow> bool \<Rightarrow> store \<Rightarrow> store" where
  "adjustScore tm amount truthy s =
     (case teams_get (teams (data s)) tm of
        None \<Rightarrow> (if truthy then save s else s)
      | Some t \<Rightarrow>
          (let t1 = t\<lparr>score := score t + amount\<rparr>;
               t2 = (if score t1 < 0 then t1\<lparr>score := 0\<rparr> else t1)
           in save (s\<lparr>data := (data s)\<lparr>teams := teams_put tm t2 (teams (data s))\<rparr>\<rparr>)))"

text \<open>
  \<open>window.addPlayer\<close>: \<open>num\<close> and \<open>nm\<close> are the values of the two input fields,
  \<open>teamId\<close> the value of the checked radio button. A string is truthy when it is not
  empty. There is no \<open>else\<close> branch and no \<open>throw\<close>.
\<close>

definition window_addPlayer ::
    "string \<Rightarrow> string \<Rightarrow> string \<Rightarrow> string \<Rightarrow> store \<Rightarrow> outcome \<times> store" where
  "window_addPlayer num nm teamId newId s =
     (if num \<noteq> [] \<and> nm \<noteq> [] then (Returned, addPlayer num nm teamId newId s)
      else (Returned, s))"

text \<open>The two \<open>input\<close> listeners of the team names, installed by \<open>UI.init\<close>.\<close>

definition homeName_input :: "string \<Rightarrow> store \<Rightarrow> store" where
  "homeName_input v s =
     save (s\<lparr>data := (data s)\<lparr>teams :=
       (teams (data s))\<lparr>home := (home (teams (data s)))\<lparr>t_name := v\<rparr>\<rparr>\<rparr>\<rparr>)"

definition visitorName_input :: "string \<Rightarrow> store \<Rightarrow> store" where
  "visitorName_input v s =
     save (s\<lparr>data := (data s)\<lparr>teams :=
       (teams (data s))\<lparr>visitor := (visitor (teams (data s)))\<lparr>t_name := v\<rparr>\<rparr>\<rparr>\<rparr>)"

text \<open>
  Loading the page: the script sets \<open>Store.data\<close> to its literal and the
  \<open>DOMContentLoaded\<close> listener calls \<open>Store.init()\<close>, \<open>Timer.init()\<close> and
  \<open>UI.init()\<close>; \<open>localStorage\<close> is what the last visit left. \<open>UI.init\<close> starts with
  \<open>renderScoreboard\<close> and \<open>renderActivePlayers\<close>, which read
  \<open>Store.data.teams.home.score\<close>, \<open>Store.data.teams.visitor.score\<close> and
  \<open>Store.data.players.filter\<close>: on a malformed value one of them throws a \<open>TypeError\<close>,
  which leaves the listener. The rendering of a session writes nothing to the store.
  \<open>window.resetGame\<close>, once confirmed, is \<open>Store.reset\<close> followed by such a load.
\<close>

definition page_load :: "int \<Rightarrow> string \<Rightarrow> stored \<Rightarrow> outcome \<times> page" where
  "page_load now stamp item =
     (case init now stamp \<lparr>data = initial_data, saved = item\<rparr> of
        (Threw e, p) \<Rightarrow> (Threw e, p)
      | (Returned, Running s) \<Rightarrow> (Returned, Running s)
      | (Returned, Stuck it) \<Rightarrow> (Threw TypeError, Stuck it))"

section \<open>StatsUtils\<close>



section \<open>Sessions\<close>

text \<open>
  What can happen to the store between two page renderings: a call of one of the mutating
  entry points, with the readings of the environment it takes (the clock, the new id, what
  the prototype chain gives for a team key that is no own property), or a reload of the
  page. An exception that leaves \<open>recordAction\<close> ends the event handler; the store keeps
  what was written before it, and the next event works on that. A reload that leaves the
  page stuck on a malformed snapshot has no store to go on with; the entry points only
  ever save sessions, so it does not occur in a run from a reset (lemma
  \<open>run_saved_session\<close>), and \<open>exec\<close> keeps the store there.
\<close>

datatype command =
    AddPlayer string string string string
  | TogglePlayerActive string
  | RecordAction string string "(real \<times> real) option" int string outcome
  | AdjustScore string int bool
  | HomeName string
  | VisitorName string
  | Reset int string
  | Reload int string

fun exec :: "store \<Rightarrow> command \<Rightarrow> store" where
  "exec s (AddPlayer num nm teamId newId) = addPlayer num nm teamId newId s"
| "exec s (TogglePlayerActive pid) = togglePlayerActive pid s"
| "exec s (RecordAction pid act extraData now clock foreign) =
     snd (recordAction pid act extraData now clock foreign s)"
| "exec s (AdjustScore tm amount truthy) = adjustScore tm amount truthy s"
| "exec s (HomeName v) = homeName_input v s"
| "exec s (VisitorName v) = visitorName_input v s"
| "exec s (Reset now stamp) = reset now stamp s"
| "exec s (Reload now stamp) =
     (case snd (page_load now stamp (saved s)) of Running s' \<Rightarrow> s' | Stuck it \<Rightarrow> s)"

definition run :: "command list \<Rightarrow> store \<Rightarrow> store" where
  "run cs s = foldl exec s cs"

section \<open>The scoring table of the specification\<close>

text \<open>
  The fourteen action kinds of the specification and the string each one is in the code:
  the \<open>case\<close> label of \<open>updateStats\<close> (for the four shots, also the key of
  \<open>actionNames\<close> in \<open>UI.openShotModal\<close>, where \<open>fg2a\<close> and \<open>fg3a\<close> are the misses).
\<close>

datatype ActionKind =
    twoPointMade | twoPointMissed | threePointMade | threePointMissed
  | freeThrowMade | freeThrowMissed | offensiveRebound | defensiveRebound
  | assist | steal | block | turnover | personalFoul | drawnFoul

fun label :: "ActionKind \<Rightarrow> string" where
  "label twoPointMade = ''fg2m''"
| "label twoPointMissed = ''fg2a''"
| "label threePointMade = ''fg3m''"
| "label threePointMissed = ''fg3a''"
| "label freeThrowMade = ''ftm''"
| "label freeThrowMissed = ''fta''"
| "label offensiveRebound = ''orb''"
| "label defensiveRebound = ''drb''"
| "label assist = ''ast''"
| "label steal = ''stl''"
| "label block = ''blk''"
| "label turnover = ''tov''"
| "label personalFoul = ''pf''"
| "label drawnFoul = ''ofd''"

text \<open>The rows of the table, as the specification writes them: player deltas, team deltas.\<close>

fun table_player :: "ActionKind \<Rightarrow> stats \<Rightarrow> stats" where
  "table_player twoPointMade s = s\<lparr>fg2m := fg2m s + 1, fg2a := fg2a s + 1, pts := pts s + 2\<rparr>"
| "table_player twoPointMissed s = s\<lparr>fg2a := fg2a s + 1\<rparr>"
| "table_player threePointMade s = s\<lparr>fg3m := fg3m s + 1, fg3a := fg3a s + 1, pts := pts s + 3\<rparr>"
| "table_player threePointMissed s = s\<lparr>fg3a := fg3a s + 1\<rparr>"
| "table_player freeThrowMade s = s\<lparr>ftm := ftm s + 1, fta := fta s + 1, pts := pts s + 1\<rparr>"
| "table_player freeThrowMissed s = s\<lparr>fta := fta s + 1\<rparr>"
| "table_player offensiveRebound s = s\<lparr>orb := orb s + 1\<rparr>"
| "table_player defensiveRebound s = s\<lparr>drb := drb s + 1\<rparr>"
| "table_player assist s = s\<lparr>ast := ast s + 1\<rparr>"
| "table_player steal s = s\<lparr>stl := stl s + 1\<rparr>"
| "table_player block s = s\<lparr>blk := blk s + 1\<rparr>"
| "table_player turnover s = s\<lparr>tov := tov s + 1\<rparr>"
| "table_player personalFoul s = s\<lparr>pf := pf s + 1\<rparr>"
| "table_player drawnFoul s = s\<lparr>ofd := ofd s + 1\<rparr>"

fun table_team :: "ActionKind \<Rightarrow> team \<Rightarrow> team" where
  "table_team twoPointMade t = t\<lparr>score := score t + 2\<rparr>"
| "table_team threePointMade t = t\<lparr>score := score t + 3\<rparr>"
| "table_team freeThrowMade t = t\<lparr>score := score t + 1\<rparr>"
| "table_team personalFoul t = t\<lparr>fouls := fouls t + 1\<rparr>"
| "table_team k t = t"

section \<open>Replaying the ledger\<close>

text \<open>
  The replay the specification speaks of: every aggregate is set to
  \<open>createEmptyStats\<close>, then the entries of the log are taken in ledger order, each one
  looking its player up by \<open>playerId\<close> as \<open>recordAction\<close> does and running
  \<open>updateStats\<close> on it.
\<close>

definition replayStep :: "outcome \<Rightarrow> data \<Rightarrow> log_entry \<Rightarrow> data" where
  "replayStep foreign d e =
     (case findIndex (\<lambda>pl. p_id pl = playerId e) (players d) of
        None \<Rightarrow> d
      | Some i \<Rightarrow> snd (updateStats i (action e) foreign d))"

definition replay :: "outcome \<Rightarrow> data \<Rightarrow> data" where
  "replay foreign d =
     foldl (replayStep foreign)
       (d\<lparr>players := map (\<lambda>p. p\<lparr>stats := createEmptyStats\<rparr>) (players d)\<rparr>) (log d)"

section \<open>Invariants of the data model\<close>

definition points_ok :: "stats \<Rightarrow> bool" where
  "points_ok s \<longleftrightarrow> pts s = 2 * fg2m s + 3 * fg3m s + 1 * ftm s"

definition makes_ok :: "stats \<Rightarrow> bool" where
  "makes_ok s \<longleftrightarrow> fg2m s \<le> fg2a s \<and> fg3m s \<le> fg3a s \<and> ftm s \<le> fta s"

text \<open>The clock readings of the \<open>recordAction\<close> calls of a session, in order.\<close>

fun readings :: "command list \<Rightarrow> int list" where
  "readings [] = []"
| "readings (RecordAction pid act extraData now clock foreign # cs) = now # readings cs"
| "readings (c # cs) = readings cs"

section \<open>Auxiliary definitions for the proofs\<close>

text \<open>
  What the \<open>case\<close> of \<open>updateStats\<close> for an action writes into the stats object, apart
  from what it does to the team (lemma \<open>updateStats_players\<close>).
\<close>

definition stats_writes :: "string \<Rightarrow> stats \<Rightarrow> stats" where
  "stats_writes act s =
     (if act = ''fg2m'' then s\<lparr>fg2m := fg2m s + 1, fg2a := fg2a s + 1, pts := pts s + 2\<rparr>
      else if act = ''fg2a'' then s\<lparr>fg2a := fg2a s + 1\<rparr>
      else if act = ''fg3m'' then s\<lparr>fg3m := fg3m s + 1, fg3a := fg3a s + 1, pts := pts s + 3\<rparr>
      else if act = ''fg3a'' then s\<lparr>fg3a := fg3a s + 1\<rparr>
      else if act = ''ftm'' then s\<lparr>ftm := ftm s + 1, fta := fta s + 1, pts := pts s + 1\<rparr>
      else if act = ''fta'' then s\<lparr>fta := fta s + 1\<rparr>
      else if act = ''orb'' then s\<lparr>orb := orb s + 1\<rparr>
      else if act = ''drb'' then s\<lparr>drb := drb s + 1\<rparr>
      else if act = ''ast'' then s\<lparr>ast := ast s + 1\<rparr>
      else if act = ''stl'' then s\<lparr>stl := stl s + 1\<rparr>
      else if act = ''blk'' then s\<lparr>blk := blk s + 1\<rparr>
      else if act = ''tov'' then s\<lparr>tov := tov s + 1\<rparr>
      else if act = ''pf'' then s\<lparr>pf := pf s + 1\<rparr>
      else if act = ''ofd'' then s\<lparr>ofd := ofd s + 1\<rparr>
      else s)"

text \<open>
  The roster with every aggregate emptied, the effect of one replayed entry on a roster,
  and the property of session data that the replay reproduces the roster, every entry
  of the log naming a player of the roster.
\<close>

definition zeroed :: "player list \<Rightarrow> player list" where
  "zeroed ps = map (\<lambda>p. p\<lparr>stats := createEmptyStats\<rparr>) ps"

definition roster_step :: "player list \<Rightarrow> log_entry \<Rightarrow> player list" where
  "roster_step ps e =
     (case findIndex (\<lambda>pl. p_id pl = playerId e) ps of
        None \<Rightarrow> ps
      | Some i \<Rightarrow> ps[i := (ps ! i)\<lparr>stats := stats_writes (action e) (stats (ps ! i))\<rparr>])"

definition replay_ok :: "data \<Rightarrow> bool" where
  "replay_ok d \<longleftrightarrow>
     (\<forall>e \<in> set (log d). playerId e \<in> p_id ` set (players d)) \<and>
     foldl roster_step (zeroed (players d)) (log d) = players d"

text \<open>
  The ids of the log increase strictly and lie below every clock reading still to come.
\<close>

definition ledger_ok :: "int list \<Rightarrow> data \<Rightarrow> bool" where
  "ledger_ok rs d \<longleftrightarrow>
     sorted_wrt (<) (map e_id (log d)) \<and> (\<forall>e \<in> set (log d). \<forall>r \<in> set rs. e_id e < r)"

subsection \<open>A small game, for the concrete instances\<close>

text \<open>
  The store when the script has run on a first visit, before \<open>Store.init\<close>; the store
  after \<open>Store.init\<close> on that visit; a roster of one; a game of two players. All team keys
  are \<open>home\<close> or \<open>visitor\<close>, so the last argument of \<open>RecordAction\<close> plays no part.
\<close>

definition blank :: store where
  "blank = \<lparr>data = initial_data, saved = Absent\<rparr>"

definition first_visit :: store where
  "first_visit = reset 1700000000000 ''2023-11-14T22:13:20.000Z'' blank"

definition with_ana :: store where
  "with_ana = addPlayer ''7'' ''Ana'' ''home'' ''lox3k9a1'' first_visit"

definition demo_game :: "command list" where
  "demo_game =
     [AddPlayer ''7'' ''Ana'' ''home'' ''lox3k9a1'',
      AddPlayer ''11'' ''Bea'' ''visitor'' ''lox3m2c7'',
      TogglePlayerActive ''lox3k9a1'',
      RecordAction ''lox3k9a1'' ''fg2m'' None 1700000005000 ''09:55'' (Threw TypeError),
      RecordAction ''lox3m2c7'' ''fg3a'' (Some (50, 10)) 1700000009000 ''09:51'' (Threw TypeError),
      RecordAction ''lox3k9a1'' ''pf'' None 1700000012000 ''09:48'' (Threw TypeError),
      RecordAction ''lox3m2c7'' ''ftm'' None 1700000015000 ''09:48'' (Threw TypeError)]"

text \<open>A roster with a player of each team.\<close>

definition with_two :: store where
  "with_two = addPlayer ''11'' ''Bea'' ''visitor'' ''lox3m2c7'' with_ana"



text \<open>Two actions recorded while \<open>Date.now()\<close> gives the same millisecond.\<close>

definition same_tick :: "command list" where
  "same_tick =
     [AddPlayer ''7'' ''Ana'' ''home'' ''lox3k9a1'',
      RecordAction ''lox3k9a1'' ''fg2m'' None 1700000005000 ''09:55'' (Threw TypeError),
      RecordAction ''lox3k9a1'' ''ast'' None 1700000005000 ''09:55'' (Threw TypeError)]"

text \<open>
  A snapshot that parses and is not a valid session: five points without a made shot, and
  a log entry for a player the roster does not have.
\<close>

definition tampered :: data where
  "tampered =
     \<lparr>gameId = Some 1700000000000, date = Some ''2023-11-14T22:13:20.000Z'',
      teams = \<lparr>home = \<lparr>t_id = ''home'', t_name = ''LOCAL'', score = 0, fouls = 0, color = None\<rparr>,
               visitor = \<lparr>t_id = ''visitor'', t_name = ''VISITANTE'', score = 0, fouls = 0,
                            color = None\<rparr>\<rparr>,
      players = [\<lparr>p_id = ''lox3k9a1'', number = ''7'', p_name = ''Ana'', p_team = ''home'',
                  active = False, stats = createEmptyStats\<lparr>pts := 5\<rparr>\<rparr>],
      log = [\<lparr>e_id = 1700000005000, playerId = ''ghost'', e_team = ''home'', action = ''fg2m'',
               e_quarter = 1, gameTime = ''09:55'', xy = None\<rparr>],
      quarter = 1, gameActive = False\<rparr>"

section \<open>Basic facts\<close>

lemma findIndex_None: "findIndex P xs = None \<longleftrightarrow> (\<forall>x\<in>set xs. \<not> P x)"
  by (induction xs) auto

lemma findIndex_Some: "findIndex P xs = Some i \<Longrightarrow> i < length xs \<and> P (xs ! i)"
  by (induction xs arbitrary: i) (auto split: if_splits)

lemma on_team_players: "players (snd (on_team k f fo d)) = players d"
  by (simp add: on_team_def split: option.splits)

lemma on_team_log: "log (snd (on_team k f fo d)) = log d"
  by (simp add: on_team_def split: option.splits)

lemma on_stats_players:
  "players (on_stats i f d) = (players d)[i := (players d ! i)\<lparr>stats := f (stats (players d ! i))\<rparr>]"
  by (simp add: on_stats_def)

lemma on_stats_log: "log (on_stats i f d) = log d"
  by (simp add: on_stats_def)

lemma updateStats_players:
  "players (snd (updateStats i act fo d)) =
     (players d)[i := (players d ! i)\<lparr>stats := stats_writes act (stats (players d ! i))\<rparr>]"
  by (simp add: updateStats_def stats_writes_def Let_def on_team_players on_stats_players)

lemma updateStats_log: "log (snd (updateStats i act fo d)) = log d"
  by (simp add: updateStats_def Let_def on_team_log on_stats_log)

lemma stats_writes_points: "points_ok s \<Longrightarrow> points_ok (stats_writes act s)"
  by (simp add: points_ok_def stats_writes_def)

lemma stats_writes_makes: "makes_ok s \<Longrightarrow> makes_ok (stats_writes act s)"
  by (simp add: makes_ok_def stats_writes_def)

lemma set_update_cases: "x \<in> set (xs[i := y]) \<Longrightarrow> x = y \<or> x \<in> set xs"
  using set_update_subset_insert [of xs i y] by auto

lemma first_visit_page_load:
  "page_load 1700000000000 ''2023-11-14T22:13:20.000Z'' Absent = (Returned, Running first_visit)"
  by (simp add: page_load_def init_def truthy_item_def first_visit_def blank_def)

lemma with_ana_data:
  "data with_ana =
     \<lparr>gameId = Some 1700000000000, date = Some ''2023-11-14T22:13:20.000Z'',
      teams = \<lparr>home = \<lparr>t_id = ''home'', t_name = ''LOCAL'', score = 0, fouls = 0, color = None\<rparr>,
               visitor = \<lparr>t_id = ''visitor'', t_name = ''VISITANTE'', score = 0, fouls = 0,
                            color = None\<rparr>\<rparr>,
      players = [\<lparr>p_id = ''lox3k9a1'', number = ''7'', p_name = ''Ana'', p_team = ''home'',
                  active = False, stats = createEmptyStats\<rparr>],
      log = [], quarter = 1, gameActive = False\<rparr>"
  by (simp add: with_ana_def first_visit_def blank_def reset_def save_def addPlayer_def)

lemma demo_game_stats:
  "map stats (players (data (run demo_game first_visit))) =
     [createEmptyStats\<lparr>pts := 2, fg2m := 1, fg2a := 1, pf := 1\<rparr>,
      createEmptyStats\<lparr>pts := 1, fg3a := 1, ftm := 1, fta := 1\<rparr>]"
  by (simp add: demo_game_def run_def first_visit_def blank_def reset_def save_def
      addPlayer_def togglePlayerActive_def recordAction_def updateStats_def on_team_def
      on_stats_def teams_get_def teams_put_def initial_data_def Let_def createEmptyStats_def)

section \<open>The scoring table (C1)\<close>

lemma with_two_data:
  "data with_two =
     \<lparr>gameId = Some 1700000000000, date = Some ''2023-11-14T22:13:20.000Z'',
      teams = \<lparr>home = \<lparr>t_id = ''home'', t_name = ''LOCAL'', score = 0, fouls = 0, color = None\<rparr>,
               visitor = \<lparr>t_id = ''visitor'', t_name = ''VISITANTE'', score = 0, fouls = 0,
                            color = None\<rparr>\<rparr>,
      players = [\<lparr>p_id = ''lox3k9a1'', number = ''7'', p_name = ''Ana'', p_team = ''home'',
                  active = False, stats = createEmptyStats\<rparr>,
                 \<lparr>p_id = ''lox3m2c7'', number = ''11'', p_name = ''Bea'', p_team = ''visitor'',
                  active = False, stats = createEmptyStats\<rparr>],
      log = [], quarter = 1, gameActive = False\<rparr>"
  by (simp add: with_two_def with_ana_def first_visit_def blank_def reset_def save_def
      addPlayer_def)

text \<open>
  C1. For each of the fourteen action kinds, \<open>updateStats\<close> on a player of the roster
  whose team is \<open>home\<close> or \<open>visitor\<close> returns, and the data it leaves are the data it
  found with exactly the row of the kind applied: the player deltas to the stats of that
  player, the team deltas to the record \<open>home\<close> for a player of \<open>home\<close> and to the record
  \<open>visitor\<close> for a player of \<open>visitor\<close>. The equation is between whole session data, so
  no other field of the aggregate, no other player, no field of the other team record and
  nothing else in the session is changed.
\<close>

theorem updateStats_table:
  assumes "i < length (players d)"
    and "p_team (players d ! i) = ''home'' \<or> p_team (players d ! i) = ''visitor''"
  shows "updateStats i (label k) fo d =
    (Returned,
     d\<lparr>players := (players d)[i := (players d ! i)\<lparr>stats := table_player k (stats (players d ! i))\<rparr>],
       teams :=
         (if p_team (players d ! i) = ''home''
          then (teams d)\<lparr>home := table_team k (home (teams d))\<rparr>
          else (teams d)\<lparr>visitor := table_team k (visitor (teams d))\<rparr>)\<rparr>)"
proof -
  from assms(2) show ?thesis
  proof
    assume "p_team (players d ! i) = ''home''"
    then show ?thesis
      by (cases k)
        (simp_all add: updateStats_def on_team_def on_stats_def Let_def teams_get_def
          teams_put_def)
  next
    assume "p_team (players d ! i) = ''visitor''"
    then show ?thesis
      by (cases k)
        (simp_all add: updateStats_def on_team_def on_stats_def Let_def teams_get_def
          teams_put_def)
  qed
qed

theorem updateStats_table_witness:
  "0 < length (players (data with_two)) \<and> p_team (players (data with_two) ! 0) = ''home'' \<and>
   1 < length (players (data with_two)) \<and> p_team (players (data with_two) ! 1) = ''visitor'' \<and>
   updateStats 0 ''fg2m'' (Threw TypeError) (data with_two) =
     (Returned,
      (data with_two)
        \<lparr>players := [(players (data with_two) ! 0)
                       \<lparr>stats := createEmptyStats\<lparr>fg2m := 1, fg2a := 1, pts := 2\<rparr>\<rparr>,
                     players (data with_two) ! 1],
         teams := (teams (data with_two))
                    \<lparr>home := (home (teams (data with_two)))\<lparr>score := 2\<rparr>\<rparr>\<rparr>) \<and>
   updateStats 1 ''fg3m'' (Threw TypeError) (data with_two) =
     (Returned,
      (data with_two)
        \<lparr>players := [players (data with_two) ! 0,
                     (players (data with_two) ! 1)
                       \<lparr>stats := createEmptyStats\<lparr>fg3m := 1, fg3a := 1, pts := 3\<rparr>\<rparr>],
         teams := (teams (data with_two))
                    \<lparr>visitor := (visitor (teams (data with_two)))\<lparr>score := 3\<rparr>\<rparr>\<rparr>) \<and>
   updateStats 1 ''pf'' (Threw TypeError) (data with_two) =
     (Returned,
      (data with_two)
        \<lparr>players := [players (data with_two) ! 0,
                     (players (data with_two) ! 1)\<lparr>stats := createEmptyStats\<lparr>pf := 1\<rparr>\<rparr>],
         teams := (teams (data with_two))
                    \<lparr>visitor := (visitor (teams (data with_two)))\<lparr>fouls := 1\<rparr>\<rparr>\<rparr>)"
  using updateStats_table [of 0 "data with_two" twoPointMade "Threw TypeError"]
    updateStats_table [of 1 "data with_two" threePointMade "Threw TypeError"]
    updateStats_table [of 1 "data with_two" personalFoul "Threw TypeError"]
  by (simp add: with_two_data createEmptyStats_def)

section \<open>Invariants of every session\<close>

text \<open>
  A property of session data that every entry point keeps, and that the data of a reset
  and the literal of the script have, holds after every run, for the data in memory and
  for the snapshot in storage. In the step lemma the case of \<open>recordAction\<close> may use
  that the command is the one that made the entry.
\<close>

lemma exec_preserves:
  assumes fresh: "\<And>now stamp s0. P (data (reset now stamp s0))"
    and initial: "P initial_data"
    and add: "\<And>d num nm teamId newId. P d \<Longrightarrow>
        P (d\<lparr>players := players d @
            [\<lparr>p_id = newId, number = num, p_name = nm, p_team = teamId, active = False,
              stats = createEmptyStats\<rparr>]\<rparr>)"
    and toggle: "\<And>d i. P d \<Longrightarrow> i < length (players d) \<Longrightarrow>
        P (d\<lparr>players := (players d)[i := (players d ! i)\<lparr>active := \<not> active (players d ! i)\<rparr>]\<rparr>)"
    and rec: "\<And>d i e fo. P d \<Longrightarrow>
        findIndex (\<lambda>pl. p_id pl = playerId e) (players d) = Some i \<Longrightarrow>
        c = RecordAction (playerId e) (action e) (xy e) (e_id e) (gameTime e) fo \<Longrightarrow>
        P (snd (updateStats i (action e) fo (d\<lparr>log := log d @ [e]\<rparr>)))"
    and teams: "\<And>d ts. P d \<Longrightarrow> P (d\<lparr>teams := ts\<rparr>)"
    and cur: "P (data s)"
    and snap: "\<And>v. saved s = Parses (Session v) \<Longrightarrow> P v"
  shows "P (data (exec s c)) \<and> (\<forall>v. saved (exec s c) = Parses (Session v) \<longrightarrow> P v)"
proof (cases c)
  case (AddPlayer num nm teamId newId)
  then show ?thesis using add [OF cur] snap by (simp add: addPlayer_def save_def)
next
  case (TogglePlayerActive pid)
  show ?thesis
  proof (cases "findIndex (\<lambda>pl. p_id pl = pid) (players (data s))")
    case None
    then show ?thesis using TogglePlayerActive cur snap by (simp add: togglePlayerActive_def)
  next
    case (Some i)
    then have "i < length (players (data s))" by (simp add: findIndex_Some)
    then show ?thesis using TogglePlayerActive Some toggle [OF cur]
      by (simp add: togglePlayerActive_def save_def)
  qed
next
  case (RecordAction pid act extraData clk clock fo)
  show ?thesis
  proof (cases "findIndex (\<lambda>pl. p_id pl = pid) (players (data s))")
    case None
    then show ?thesis using RecordAction cur snap by (simp add: recordAction_def)
  next
    case (Some i)
    let ?e = "\<lparr>e_id = clk, playerId = pid, e_team = p_team (players (data s) ! i), action = act,
          e_quarter = quarter (data s), gameTime = clock, xy = extraData\<rparr>"
    have "P (snd (updateStats i act fo ((data s)\<lparr>log := log (data s) @ [?e]\<rparr>)))"
      using rec [OF cur, of ?e i fo] Some RecordAction by simp
    then show ?thesis using RecordAction Some snap
      by (cases "updateStats i act fo ((data s)\<lparr>log := log (data s) @ [?e]\<rparr>)")
        (auto simp: recordAction_def Let_def save_def split: outcome.splits)
  qed
next
  case (AdjustScore tm amount truthy)
  then show ?thesis using teams [OF cur] cur snap
    by (simp add: adjustScore_def save_def Let_def split: option.splits)
next
  case (HomeName v)
  then show ?thesis using teams [OF cur] by (simp add: homeName_input_def save_def)
next
  case (VisitorName v)
  then show ?thesis using teams [OF cur] by (simp add: visitorName_input_def save_def)
next
  case (Reset clk stamp)
  then show ?thesis using fresh [of clk stamp s] by (simp add: reset_def save_def)
next
  case (Reload clk stamp)
  show ?thesis
  proof (cases "saved s")
    case Absent
    then show ?thesis using Reload fresh [of clk stamp "\<lparr>data = initial_data, saved = Absent\<rparr>"]
      by (simp add: page_load_def init_def truthy_item_def reset_def save_def)
  next
    case Empty
    then show ?thesis using Reload fresh [of clk stamp "\<lparr>data = initial_data, saved = Empty\<rparr>"]
      by (simp add: page_load_def init_def truthy_item_def reset_def save_def)
  next
    case Corrupt
    then show ?thesis using Reload initial
      by (simp add: page_load_def init_def truthy_item_def JSON_parse_def)
  next
    case (Parses v)
    then show ?thesis using Reload cur snap
      by (cases v) (simp_all add: page_load_def init_def truthy_item_def JSON_parse_def)
  qed
qed

lemma run_preserves:
  assumes fresh: "\<And>now stamp s0. P (data (reset now stamp s0))"
    and initial: "P initial_data"
    and add: "\<And>d num nm teamId newId. P d \<Longrightarrow>
        P (d\<lparr>players := players d @
            [\<lparr>p_id = newId, number = num, p_name = nm, p_team = teamId, active = False,
              stats = createEmptyStats\<rparr>]\<rparr>)"
    and toggle: "\<And>d i. P d \<Longrightarrow> i < length (players d) \<Longrightarrow>
        P (d\<lparr>players := (players d)[i := (players d ! i)\<lparr>active := \<not> active (players d ! i)\<rparr>]\<rparr>)"
    and rec: "\<And>d i e fo. P d \<Longrightarrow>
        findIndex (\<lambda>pl. p_id pl = playerId e) (players d) = Some i \<Longrightarrow>
        P (snd (updateStats i (action e) fo (d\<lparr>log := log d @ [e]\<rparr>)))"
    and teams: "\<And>d ts. P d \<Longrightarrow> P (d\<lparr>teams := ts\<rparr>)"
  shows "P (data s) \<Longrightarrow> (\<forall>v. saved s = Parses (Session v) \<longrightarrow> P v) \<Longrightarrow> P (data (run cs s))"
proof (induction cs arbitrary: s)
  case Nil
  then show ?case by (simp add: run_def)
next
  case (Cons c cs)
  have "P (data (exec s c)) \<and> (\<forall>v. saved (exec s c) = Parses (Session v) \<longrightarrow> P v)"
    using exec_preserves [where P = P and s = s and c = c] fresh initial add toggle rec teams Cons.prems by blast
  then have "P (data (run cs (exec s c)))" using Cons.IH by blast
  then show ?case by (simp add: run_def)
qed

text \<open>
  A property of aggregates that the empty aggregate has and that every \<open>case\<close> of
  \<open>updateStats\<close> keeps holds of every player after every run from a reset.
\<close>

lemma roster_invariant:
  assumes zero: "Q createEmptyStats"
    and step: "\<And>act s. Q s \<Longrightarrow> Q (stats_writes act s)"
  shows "\<forall>p \<in> set (players (data (run cs (reset now stamp s0)))). Q (stats p)"
proof -
  let ?P = "\<lambda>d::data. \<forall>p \<in> set (players d). Q (stats p)"
  have "?P (data (run cs (reset now stamp s0)))"
  proof (rule run_preserves [of ?P])
    show "?P (data (reset now' stamp' s0'))" for now' stamp' s0'
      by (simp add: reset_def save_def)
    show "?P initial_data" by (simp add: initial_data_def)
    show "?P (d\<lparr>players := players d @
            [\<lparr>p_id = newId, number = num, p_name = nm, p_team = teamId, active = False,
              stats = createEmptyStats\<rparr>]\<rparr>)" if "?P d" for d num nm teamId newId
      using that zero by auto
    show "?P (d\<lparr>players := (players d)[i := (players d ! i)\<lparr>active := \<not> active (players d ! i)\<rparr>]\<rparr>)"
      if "?P d" "i < length (players d)" for d i
    proof -
      have "Q (stats (players d ! i))" using that by simp
      then show ?thesis using that(1) by (auto dest!: set_update_cases)
    qed
    show "?P (snd (updateStats i (action e) fo (d\<lparr>log := log d @ [e]\<rparr>)))"
      if "?P d" "findIndex (\<lambda>pl. p_id pl = playerId e) (players d) = Some i" for d i e fo
    proof -
      have "i < length (players d)" using that(2) by (simp add: findIndex_Some)
      then have "Q (stats (players d ! i))" using that(1) by simp
      then have "Q (stats_writes (action e) (stats (players d ! i)))" by (rule step)
      then show ?thesis using that(1) by (auto simp: updateStats_players dest!: set_update_cases)
    qed
    show "?P (d\<lparr>teams := ts\<rparr>)" if "?P d" for d ts using that by simp
    show "?P (data (reset now stamp s0))" by (simp add: reset_def save_def)
    show "\<forall>v. saved (reset now stamp s0) = Parses (Session v) \<longrightarrow> ?P v" by (simp add: reset_def save_def)
  qed
  then show ?thesis .
qed

text \<open>
  C2. From a fresh session (the store after \<open>reset\<close>), after every step of every sequence
  of commands (\<open>take n cs\<close> is the sequence up to step \<open>n\<close>), every player aggregate has
  \<open>pts = 2 * fg2m + 3 * fg3m + 1 * ftm\<close>. The sequences include the calls of
  \<open>recordAction\<close> that a \<open>TypeError\<close> leaves half-way.
\<close>

theorem points_invariant:
  "\<forall>p \<in> set (players (data (run (take n cs) (reset now stamp s0)))). points_ok (stats p)"
proof -
  have "points_ok createEmptyStats" by (simp add: points_ok_def createEmptyStats_def)
  then show ?thesis using roster_invariant [of points_ok] stats_writes_points by blast
qed

theorem points_invariant_witness:
  "points_ok (stats (players (data (run (take 7 demo_game)
        (reset 1700000000000 ''2023-11-14T22:13:20.000Z'' blank))) ! 0)) \<and>
   map (pts \<circ> stats) (players (data (run (take 7 demo_game)
        (reset 1700000000000 ''2023-11-14T22:13:20.000Z'' blank)))) = [2, 1]"
proof -
  let ?ps = "players (data (run (take 7 demo_game)
        (reset 1700000000000 ''2023-11-14T22:13:20.000Z'' blank)))"
  have "take 7 demo_game = demo_game" by (simp add: demo_game_def)
  then have st: "map stats ?ps = [createEmptyStats\<lparr>pts := 2, fg2m := 1, fg2a := 1, pf := 1\<rparr>,
      createEmptyStats\<lparr>pts := 1, fg3a := 1, ftm := 1, fta := 1\<rparr>]"
    using demo_game_stats by (simp only: first_visit_def)
  have "length (map stats ?ps) = 2" by (simp only: st) simp
  then have mem: "?ps ! 0 \<in> set ?ps" by simp
  have "map (pts \<circ> stats) ?ps = map pts (map stats ?ps)" by simp
  also have "\<dots> = [2, 1]" by (simp only: st) simp
  finally show ?thesis
    using points_invariant [of 7 demo_game 1700000000000 "''2023-11-14T22:13:20.000Z''" blank]
      mem by blast
qed

text \<open>
  C3. From a fresh session, after every step of every sequence of commands, every player
  aggregate has \<open>fg2m \<le> fg2a\<close>, \<open>fg3m \<le> fg3a\<close> and \<open>ftm \<le> fta\<close>.
\<close>

theorem makes_invariant:
  "\<forall>p \<in> set (players (data (run (take n cs) (reset now stamp s0)))). makes_ok (stats p)"
proof -
  have "makes_ok createEmptyStats" by (simp add: makes_ok_def createEmptyStats_def)
  then show ?thesis using roster_invariant [of makes_ok] stats_writes_makes by blast
qed

theorem makes_invariant_witness:
  "makes_ok (stats (players (data (run (take 7 demo_game)
        (reset 1700000000000 ''2023-11-14T22:13:20.000Z'' blank))) ! 1)) \<and>
   map (fta \<circ> stats) (players (data (run (take 7 demo_game)
        (reset 1700000000000 ''2023-11-14T22:13:20.000Z'' blank)))) = [0, 1]"
proof -
  let ?ps = "players (data (run (take 7 demo_game)
        (reset 1700000000000 ''2023-11-14T22:13:20.000Z'' blank)))"
  have "take 7 demo_game = demo_game" by (simp add: demo_game_def)
  then have st: "map stats ?ps = [createEmptyStats\<lparr>pts := 2, fg2m := 1, fg2a := 1, pf := 1\<rparr>,
      createEmptyStats\<lparr>pts := 1, fg3a := 1, ftm := 1, fta := 1\<rparr>]"
    using demo_game_stats by (simp only: first_visit_def)
  have "length (map stats ?ps) = 2" by (simp only: st) simp
  then have mem: "?ps ! 1 \<in> set ?ps" by simp
  have "map (fta \<circ> stats) ?ps = map fta (map stats ?ps)" by simp
  also have "\<dots> = [0, 1]" by (simp only: st) (simp add: createEmptyStats_def)
  finally show ?thesis
    using makes_invariant [of 7 demo_game 1700000000000 "''2023-11-14T22:13:20.000Z''" blank]
      mem by blast
qed

section \<open>Recording for a player that is not in the roster (C5)\<close>

text \<open>
  C5, as amended. \<open>recordAction\<close> with a \<open>playerId\<close> that no player of the roster has
  returns without raising anything (the guard is \<open>if (!p) return;\<close>) and leaves the whole
  store as it was: ledger, aggregates, team records and the snapshot in storage.
\<close>

theorem recordAction_unknown_player:
  assumes "pid \<notin> p_id ` set (players (data s))"
  shows "recordAction pid act extraData now clock fo s = (Returned, s)"
proof -
  have "findIndex (\<lambda>pl. p_id pl = pid) (players (data s)) = None"
    using assms by (auto simp: findIndex_None)
  then show ?thesis by (simp add: recordAction_def)
qed

theorem recordAction_unknown_player_witness:
  "''nobody'' \<notin> p_id ` set (players (data with_ana)) \<and>
   recordAction ''nobody'' ''fg2m'' None 1700000005000 ''09:55'' (Threw TypeError) with_ana = (Returned, with_ana)"
  using recordAction_unknown_player [of "''nobody''" with_ana "''fg2m''" None 1700000005000 "''09:55''"
      "Threw TypeError"]
  by (simp add: with_ana_data)

text \<open>
  C5 as the specification states it fails: the call for the id \<open>nobody\<close>, which the roster
  of \<open>with_ana\<close> does not have, is not rejected with an error; it returns.
\<close>

theorem recordAction_unknown_player_no_error:
  "fst (recordAction ''nobody'' ''fg2m'' None 1700000005000 ''09:55'' (Threw TypeError) with_ana) = Returned"
  by (simp add: recordAction_def with_ana_data)

section \<open>Recording an action string outside the fourteen (C10)\<close>

lemma updateStats_unrecognised:
  assumes "act \<notin> range label"
  shows "updateStats i act fo d = (Returned, d)"
proof -
  have "act \<noteq> label twoPointMade" "act \<noteq> label twoPointMissed" "act \<noteq> label threePointMade"
    "act \<noteq> label threePointMissed" "act \<noteq> label freeThrowMade" "act \<noteq> label freeThrowMissed"
    "act \<noteq> label offensiveRebound" "act \<noteq> label defensiveRebound" "act \<noteq> label assist"
    "act \<noteq> label steal" "act \<noteq> label block" "act \<noteq> label turnover"
    "act \<noteq> label personalFoul" "act \<noteq> label drawnFoul"
    using assms by blast+
  then show ?thesis by (simp add: updateStats_def)
qed

text \<open>
  C10. For an action string that is none of the fourteen labels and a \<open>playerId\<close> of the
  roster, \<open>recordAction\<close> returns, and the store it leaves differs from the one it found
  in one entry appended to the log, which carries that string, that id and the clock
  reading (and in the snapshot, which \<open>save\<close> writes): the players and both team records
  are the same.
\<close>

theorem recordAction_unrecognised_action:
  assumes "pid \<in> p_id ` set (players (data s))"
    and "act \<notin> range label"
  shows "\<exists>e. playerId e = pid \<and> action e = act \<and> e_id e = now \<and>
    recordAction pid act extraData now clock fo s =
      (Returned, save (s\<lparr>data := (data s)\<lparr>log := log (data s) @ [e]\<rparr>\<rparr>))"
proof -
  obtain i where "findIndex (\<lambda>pl. p_id pl = pid) (players (data s)) = Some i"
    using assms(1) by (cases "findIndex (\<lambda>pl. p_id pl = pid) (players (data s))")
      (auto simp: findIndex_None)
  then have "recordAction pid act extraData now clock fo s =
      (Returned, save (s\<lparr>data := (data s)\<lparr>log := log (data s) @
        [\<lparr>e_id = now, playerId = pid, e_team = p_team (players (data s) ! i), action = act,
          e_quarter = quarter (data s), gameTime = clock, xy = extraData\<rparr>]\<rparr>\<rparr>))"
    by (simp add: recordAction_def Let_def updateStats_unrecognised [OF assms(2)])
  then show ?thesis
    by (intro exI [of _ "\<lparr>e_id = now, playerId = pid, e_team = p_team (players (data s) ! i),
          action = act, e_quarter = quarter (data s), gameTime = clock, xy = extraData\<rparr>"]) simp
qed

lemma timeout_not_label: "''timeout'' \<notin> range label"
proof
  assume "''timeout'' \<in> range label"
  then obtain k where "''timeout'' = label k" by blast
  then show False by (cases k) simp_all
qed

theorem recordAction_unrecognised_action_witness:
  "''lox3k9a1'' \<in> p_id ` set (players (data with_ana)) \<and> ''timeout'' \<notin> range label \<and>
   (\<exists>e. playerId e = ''lox3k9a1'' \<and> action e = ''timeout'' \<and> e_id e = 1700000005000 \<and>
     recordAction ''lox3k9a1'' ''timeout'' None 1700000005000 ''09:55'' (Threw TypeError) with_ana =
       (Returned, save (with_ana\<lparr>data := (data with_ana)\<lparr>log := log (data with_ana) @ [e]\<rparr>\<rparr>)))"
  using recordAction_unrecognised_action [of "''lox3k9a1''" with_ana "''timeout''" 1700000005000
      None "''09:55''" "Threw TypeError"] timeout_not_label
  by (simp add: with_ana_data)

section \<open>Replay (C4)\<close>

lemma replayStep_players: "players (replayStep fo d e) = roster_step (players d) e"
  by (simp add: replayStep_def roster_step_def updateStats_players split: option.splits)

lemma foldl_replayStep_players:
  "players (foldl (replayStep fo) d es) = foldl roster_step (players d) es"
  by (induction es arbitrary: d) (simp_all add: replayStep_players)

lemma replay_players: "players (replay fo d) = foldl roster_step (zeroed (players d)) (log d)"
  by (simp add: replay_def foldl_replayStep_players zeroed_def)

lemma findIndex_ids:
  "map p_id xs = map p_id ys \<Longrightarrow>
     findIndex (\<lambda>pl. p_id pl = pid) xs = findIndex (\<lambda>pl. p_id pl = pid) ys"
proof (induction xs arbitrary: ys)
  case Nil
  then show ?case by simp
next
  case (Cons x xs)
  then obtain y ys' where "ys = y # ys'" "p_id x = p_id y" "map p_id xs = map p_id ys'"
    by (cases ys) auto
  then show ?case using Cons.IH [of ys'] by simp
qed

lemma findIndex_append:
  "findIndex P xs = Some i \<Longrightarrow> findIndex P (xs @ ys) = Some i"
  by (induction xs arbitrary: i) (auto split: if_splits)

lemma ids_update_stats: "map p_id (ps[i := (ps ! i)\<lparr>stats := s\<rparr>]) = map p_id ps"
  by (cases "i < length ps") (auto simp: nth_list_update intro!: nth_equalityI)

lemma ids_update_active: "map p_id (ps[i := (ps ! i)\<lparr>active := b\<rparr>]) = map p_id ps"
  by (cases "i < length ps") (auto simp: nth_list_update intro!: nth_equalityI)

lemma active_stats_commute:
  "p\<lparr>active := b, stats := s\<rparr> = p\<lparr>stats := s, active := b\<rparr>"
  by (cases p) simp

lemma ids_zeroed: "map p_id (zeroed ps) = map p_id ps"
  by (simp add: zeroed_def)

lemma ids_set: "map p_id xs = map p_id ys \<Longrightarrow> p_id ` set xs = p_id ` set ys"
  by (metis set_map)

lemma roster_step_ids: "map p_id (roster_step ps e) = map p_id ps"
  by (simp add: roster_step_def ids_update_stats split: option.splits)

lemma roster_step_append:
  assumes "playerId e \<in> p_id ` set ps"
  shows "roster_step (ps @ [q]) e = roster_step ps e @ [q]"
proof -
  obtain i where i: "findIndex (\<lambda>pl. p_id pl = playerId e) ps = Some i"
    using assms by (cases "findIndex (\<lambda>pl. p_id pl = playerId e) ps") (auto simp: findIndex_None)
  then have "i < length ps" by (simp add: findIndex_Some)
  then show ?thesis using i findIndex_append [OF i, of "[q]"]
    by (simp add: roster_step_def list_update_append1 nth_append)
qed

lemma foldl_roster_step_append:
  "\<forall>e \<in> set es. playerId e \<in> p_id ` set ps \<Longrightarrow>
     foldl roster_step (ps @ [q]) es = foldl roster_step ps es @ [q]"
proof (induction es arbitrary: ps)
  case Nil
  then show ?case by simp
next
  case (Cons e es)
  have "p_id ` set (roster_step ps e) = p_id ` set ps"
    by (rule ids_set) (rule roster_step_ids)
  then have "\<forall>e' \<in> set es. playerId e' \<in> p_id ` set (roster_step ps e)"
    using Cons.prems by simp
  then show ?case using Cons.IH [of "roster_step ps e"] Cons.prems
    by (simp add: roster_step_append)
qed

lemma roster_step_toggle:
  assumes "i < length ps"
  shows "roster_step (ps[i := (ps ! i)\<lparr>active := b\<rparr>]) e =
    (roster_step ps e)[i := (roster_step ps e ! i)\<lparr>active := b\<rparr>]"
proof -
  have same: "findIndex (\<lambda>pl. p_id pl = playerId e) (ps[i := (ps ! i)\<lparr>active := b\<rparr>]) =
      findIndex (\<lambda>pl. p_id pl = playerId e) ps"
    by (rule findIndex_ids) (rule ids_update_active)
  show ?thesis
  proof (cases "findIndex (\<lambda>pl. p_id pl = playerId e) ps")
    case None
    then show ?thesis using same by (simp add: roster_step_def)
  next
    case (Some j)
    then have "j < length ps" by (simp add: findIndex_Some)
    then show ?thesis using same Some assms
      by (cases "j = i") (simp_all add: roster_step_def list_update_swap active_stats_commute)
  qed
qed

lemma roster_step_length: "length (roster_step ps e) = length ps"
  by (simp add: roster_step_def split: option.splits)

lemma foldl_roster_step_toggle:
  "i < length ps \<Longrightarrow>
     foldl roster_step (ps[i := (ps ! i)\<lparr>active := b\<rparr>]) es =
       (foldl roster_step ps es)[i := (foldl roster_step ps es ! i)\<lparr>active := b\<rparr>]"
proof (induction es arbitrary: ps)
  case Nil
  then show ?case by simp
next
  case (Cons e es)
  then show ?case using Cons.IH [of "roster_step ps e"]
    by (simp add: roster_step_toggle roster_step_length)
qed

lemma zeroed_update_stats: "zeroed (ps[i := (ps ! i)\<lparr>stats := s\<rparr>]) = zeroed ps"
  unfolding zeroed_def
  by (cases "i < length ps") (auto simp: nth_list_update intro!: nth_equalityI)

lemma zeroed_update_active:
  "i < length ps \<Longrightarrow>
     zeroed (ps[i := (ps ! i)\<lparr>active := b\<rparr>]) = (zeroed ps)[i := (zeroed ps ! i)\<lparr>active := b\<rparr>]"
  unfolding zeroed_def by (rule nth_equalityI) (auto simp: nth_list_update)

lemma replay_ok_run: "replay_ok (data (run cs (reset now stamp s0)))"
proof (rule run_preserves [of replay_ok])
  show "replay_ok (data (reset now' stamp' s0'))" for now' stamp' s0'
    by (simp add: replay_ok_def reset_def save_def zeroed_def)
  show "replay_ok initial_data" by (simp add: replay_ok_def initial_data_def zeroed_def)
  show "replay_ok (d\<lparr>players := players d @
          [\<lparr>p_id = newId, number = num, p_name = nm, p_team = teamId, active = False,
            stats = createEmptyStats\<rparr>]\<rparr>)" if "replay_ok d" for d num nm teamId newId
  proof -
    let ?q = "\<lparr>p_id = newId, number = num, p_name = nm, p_team = teamId, active = False,
            stats = createEmptyStats\<rparr>"
    have "\<forall>e \<in> set (log d). playerId e \<in> p_id ` set (zeroed (players d))"
      using that ids_set [OF ids_zeroed, of "players d"] by (simp add: replay_ok_def)
    then have "foldl roster_step (zeroed (players d) @ [?q]) (log d) = players d @ [?q]"
      using that by (simp add: foldl_roster_step_append replay_ok_def)
    moreover have "zeroed (players d @ [?q]) = zeroed (players d) @ [?q]"
      by (simp add: zeroed_def)
    ultimately show ?thesis using that by (auto simp: replay_ok_def)
  qed
  show "replay_ok (d\<lparr>players := (players d)[i := (players d ! i)\<lparr>active := \<not> active (players d ! i)\<rparr>]\<rparr>)"
    if "replay_ok d" "i < length (players d)" for d i
  proof -
    let ?b = "\<not> active (players d ! i)"
    have "p_id ` set ((players d)[i := (players d ! i)\<lparr>active := ?b\<rparr>]) = p_id ` set (players d)"
      by (rule ids_set) (rule ids_update_active)
    moreover have "foldl roster_step (zeroed ((players d)[i := (players d ! i)\<lparr>active := ?b\<rparr>])) (log d)
        = (players d)[i := (players d ! i)\<lparr>active := ?b\<rparr>]"
    proof -
      have "i < length (zeroed (players d))" using that(2) by (simp add: zeroed_def)
      then have "foldl roster_step ((zeroed (players d))[i := (zeroed (players d) ! i)\<lparr>active := ?b\<rparr>])
          (log d) = (foldl roster_step (zeroed (players d)) (log d))
            [i := (foldl roster_step (zeroed (players d)) (log d) ! i)\<lparr>active := ?b\<rparr>]"
        by (rule foldl_roster_step_toggle)
      then show ?thesis using that by (simp add: zeroed_update_active replay_ok_def)
    qed
    ultimately show ?thesis using that(1) by (simp add: replay_ok_def)
  qed
  show "replay_ok (snd (updateStats i (action e) fo (d\<lparr>log := log d @ [e]\<rparr>)))"
    if "replay_ok d" "findIndex (\<lambda>pl. p_id pl = playerId e) (players d) = Some i" for d i e fo
  proof -
    let ?d' = "snd (updateStats i (action e) fo (d\<lparr>log := log d @ [e]\<rparr>))"
    let ?ps' = "(players d)
      [i := (players d ! i)\<lparr>stats := stats_writes (action e) (stats (players d ! i))\<rparr>]"
    have ps: "players ?d' = ?ps'" by (simp add: updateStats_players)
    have lg: "log ?d' = log d @ [e]" by (simp add: updateStats_log)
    have ids: "p_id ` set ?ps' = p_id ` set (players d)"
      by (rule ids_set) (rule ids_update_stats)
    have "i < length (players d) \<and> p_id (players d ! i) = playerId e"
      using findIndex_Some [OF that(2)] by simp
    then have "playerId e \<in> p_id ` set (players d)"
      by (metis imageI nth_mem)
    then have known: "\<forall>e' \<in> set (log ?d'). playerId e' \<in> p_id ` set (players ?d')"
      using that(1) by (simp add: ps lg ids replay_ok_def)
    have "foldl roster_step (zeroed ?ps') (log d @ [e]) = roster_step (players d) e"
      using that(1) by (simp add: zeroed_update_stats replay_ok_def)
    also have "\<dots> = ?ps'" using that(2) by (simp add: roster_step_def)
    finally show ?thesis using known by (simp add: replay_ok_def ps lg)
  qed
  show "replay_ok (d\<lparr>teams := ts\<rparr>)" if "replay_ok d" for d ts
    using that by (simp add: replay_ok_def)
  show "replay_ok (data (reset now stamp s0))"
    by (simp add: replay_ok_def reset_def save_def zeroed_def)
  show "\<forall>v. saved (reset now stamp s0) = Parses (Session v) \<longrightarrow> replay_ok v"
    by (simp add: replay_ok_def reset_def save_def zeroed_def)
qed


text \<open>
  C4. In every state that a sequence of commands reaches from a fresh session, replaying
  the log in ledger order over emptied aggregates gives exactly the roster of the session,
  hence every per-player aggregate. An entry whose \<open>updateStats\<close> ends in a
  \<open>TypeError\<close> contributes in the replay what it had written when it was recorded.
\<close>

theorem replay_reproduces_aggregates:
  "players (replay fo (data (run cs (reset now stamp s0)))) =
     players (data (run cs (reset now stamp s0)))"
  using replay_ok_run [of cs now stamp s0] by (simp add: replay_players replay_ok_def)

theorem replay_reproduces_aggregates_witness:
  "map stats (players (replay (Threw TypeError) (data (run demo_game first_visit)))) =
     [createEmptyStats\<lparr>pts := 2, fg2m := 1, fg2a := 1, pf := 1\<rparr>,
      createEmptyStats\<lparr>pts := 1, fg3a := 1, ftm := 1, fta := 1\<rparr>]"
  using replay_reproduces_aggregates [of "Threw TypeError" demo_game 1700000000000
      "''2023-11-14T22:13:20.000Z''" blank]
    demo_game_stats
  by (simp only: first_visit_def)

section \<open>The ids of the log entries (C6)\<close>

lemma recordAction_data:
  assumes "findIndex (\<lambda>pl. p_id pl = pid) (players (data s)) = Some i"
  shows "\<exists>d2. log d2 = log (data s) @
        [\<lparr>e_id = now, playerId = pid, e_team = p_team (players (data s) ! i), action = act,
          e_quarter = quarter (data s), gameTime = clock, xy = extraData\<rparr>] \<and>
      data (snd (recordAction pid act extraData now clock fo s)) = d2 \<and>
      (saved (snd (recordAction pid act extraData now clock fo s)) = saved s \<or>
       saved (snd (recordAction pid act extraData now clock fo s)) = Parses (Session d2))"
proof -
  let ?e = "\<lparr>e_id = now, playerId = pid, e_team = p_team (players (data s) ! i), action = act,
          e_quarter = quarter (data s), gameTime = clock, xy = extraData\<rparr>"
  let ?r = "updateStats i act fo ((data s)\<lparr>log := log (data s) @ [?e]\<rparr>)"
  have "log (snd ?r) = log (data s) @ [?e]" by (simp add: updateStats_log)
  moreover have "data (snd (recordAction pid act extraData now clock fo s)) = snd ?r"
    using assms by (cases ?r) (simp add: recordAction_def Let_def save_def split: outcome.splits)
  moreover have "saved (snd (recordAction pid act extraData now clock fo s)) = saved s \<or>
      saved (snd (recordAction pid act extraData now clock fo s)) = Parses (Session (snd ?r))"
    using assms by (cases ?r) (simp add: recordAction_def Let_def save_def split: outcome.splits)
  ultimately show ?thesis by blast
qed

lemma ledger_ok_append:
  assumes "ledger_ok (now # rs) d" and "sorted_wrt (<) (now # rs)"
    and "log d2 = log d @ [e]" and "e_id e = now"
  shows "ledger_ok rs d2"
  using assms by (auto simp: ledger_ok_def sorted_wrt_append)

lemma exec_ledger_ok:
  assumes inc: "sorted_wrt (<) (readings (c # cs))"
    and cur: "ledger_ok (readings (c # cs)) (data s)"
    and snap: "\<And>v. saved s = Parses (Session v) \<Longrightarrow> ledger_ok (readings (c # cs)) v"
  shows "ledger_ok (readings cs) (data (exec s c)) \<and>
    (\<forall>v. saved (exec s c) = Parses (Session v) \<longrightarrow> ledger_ok (readings cs) v)"
proof -
  let ?P = "ledger_ok (readings cs)"
  have weaker: "?P d" if "ledger_ok (readings (c # cs)) d" for d
    using that by (cases c) (auto simp: ledger_ok_def)
  show ?thesis
  proof (cases "\<exists>pid act extraData now clock fo. c = RecordAction pid act extraData now clock fo")
    case True
    then obtain pid act extraData now clock fo
      where c: "c = RecordAction pid act extraData now clock fo"
      by blast
    show ?thesis
    proof (cases "findIndex (\<lambda>pl. p_id pl = pid) (players (data s))")
      case None
      then show ?thesis using c weaker cur snap by (simp add: recordAction_def)
    next
      case (Some i)
      from recordAction_data [OF Some, of now act clock extraData fo]
      obtain d2 where d2: "log d2 = log (data s) @
            [\<lparr>e_id = now, playerId = pid, e_team = p_team (players (data s) ! i), action = act,
              e_quarter = quarter (data s), gameTime = clock, xy = extraData\<rparr>]"
          "data (snd (recordAction pid act extraData now clock fo s)) = d2"
          "saved (snd (recordAction pid act extraData now clock fo s)) = saved s \<or>
           saved (snd (recordAction pid act extraData now clock fo s)) = Parses (Session d2)"
        by blast
      have "?P d2"
        using ledger_ok_append [of now "readings cs" "data s" d2] cur inc d2(1) c by simp
      then show ?thesis using c d2(2,3) weaker snap by auto
    qed
  next
    case False
    show ?thesis
    proof (rule exec_preserves [of ?P])
      show "?P (data (reset now stamp s0))" for now stamp s0
        by (simp add: ledger_ok_def reset_def save_def)
      show "?P initial_data" by (simp add: ledger_ok_def initial_data_def)
      show "?P (d\<lparr>players := players d @
            [\<lparr>p_id = newId, number = num, p_name = nm, p_team = teamId, active = False,
              stats = createEmptyStats\<rparr>]\<rparr>)" if "?P d" for d num nm teamId newId
        using that by (simp add: ledger_ok_def)
      show "?P (d\<lparr>players := (players d)[i := (players d ! i)\<lparr>active := \<not> active (players d ! i)\<rparr>]\<rparr>)"
        if "?P d" for d i
        using that by (simp add: ledger_ok_def)
      show "?P (d\<lparr>teams := ts\<rparr>)" if "?P d" for d ts
        using that by (simp add: ledger_ok_def)
      show "?P (data s)" using cur by (rule weaker)
      show "?P v" if "saved s = Parses (Session v)" for v using snap [OF that] by (rule weaker)
      show "?P (snd (updateStats i (action e) fo (d\<lparr>log := log d @ [e]\<rparr>)))"
        if "c = RecordAction (playerId e) (action e) (xy e) (e_id e) (gameTime e) fo" for d i e fo
        using that False by blast
    qed
  qed
qed

lemma run_ledger_ok:
  "sorted_wrt (<) (readings cs) \<Longrightarrow> ledger_ok (readings cs) (data s) \<Longrightarrow>
     (\<forall>v. saved s = Parses (Session v) \<longrightarrow> ledger_ok (readings cs) v) \<Longrightarrow>
     ledger_ok [] (data (run cs s))"
proof (induction cs arbitrary: s)
  case Nil
  then show ?case by (simp add: run_def)
next
  case (Cons c cs)
  have "ledger_ok (readings cs) (data (exec s c)) \<and>
      (\<forall>v. saved (exec s c) = Parses (Session v) \<longrightarrow> ledger_ok (readings cs) v)"
    using exec_ledger_ok [of c cs s] Cons.prems by blast
  moreover have "sorted_wrt (<) (readings cs)"
    using Cons.prems(1) by (cases c) simp_all
  ultimately have "ledger_ok [] (data (run cs (exec s c)))" using Cons.IH by blast
  then show ?case by (simp add: run_def)
qed


text \<open>
  C6, as amended. The id of a new entry is the reading of \<open>Date.now()\<close> at the call of
  \<open>recordAction\<close>. When these readings increase strictly from each call to the next, the
  ids of the log increase strictly in ledger order, so each is greater than every earlier
  one and none repeats, in every state reached from a fresh session.
\<close>

theorem ids_increasing_with_clock:
  assumes "sorted_wrt (<) (readings cs)"
  shows "sorted_wrt (<) (map e_id (log (data (run cs (reset now stamp s0))))) \<and>
    distinct (map e_id (log (data (run cs (reset now stamp s0)))))"
proof -
  have "ledger_ok (readings cs) (data (reset now stamp s0))"
    by (simp add: ledger_ok_def reset_def save_def)
  moreover have "\<forall>v. saved (reset now stamp s0) = Parses (Session v) \<longrightarrow> ledger_ok (readings cs) v"
    by (simp add: ledger_ok_def reset_def save_def)
  ultimately have "ledger_ok [] (data (run cs (reset now stamp s0)))"
    using run_ledger_ok assms by blast
  then have "sorted_wrt (<) (map e_id (log (data (run cs (reset now stamp s0)))))"
    by (simp add: ledger_ok_def)
  then show ?thesis using strict_sorted_iff by blast
qed

lemma demo_game_ids:
  "map e_id (log (data (run demo_game first_visit))) =
     [1700000005000, 1700000009000, 1700000012000, 1700000015000]"
  by (simp add: demo_game_def run_def first_visit_def blank_def reset_def save_def
      addPlayer_def togglePlayerActive_def recordAction_def updateStats_def on_team_def
      on_stats_def teams_get_def teams_put_def initial_data_def Let_def createEmptyStats_def)

theorem ids_increasing_with_clock_witness:
  "sorted_wrt (<) (readings demo_game) \<and>
   sorted_wrt (<) (map e_id (log (data (run demo_game first_visit)))) \<and>
   distinct (map e_id (log (data (run demo_game first_visit)))) \<and>
   length (log (data (run demo_game first_visit))) = 4"
proof -
  have r: "sorted_wrt (<) (readings demo_game)" by (simp add: demo_game_def)
  have "length (map e_id (log (data (run demo_game first_visit)))) = 4"
    by (simp only: demo_game_ids) simp
  then show ?thesis
    using r ids_increasing_with_clock [OF r, of 1700000000000 "''2023-11-14T22:13:20.000Z''" blank]
    by (simp add: first_visit_def)
qed

text \<open>
  C6 as the specification states it fails: two actions recorded within one millisecond get
  the same id, so the second id is not greater than the first and the value repeats.
\<close>

theorem ids_repeat_within_a_millisecond:
  "map e_id (log (data (run same_tick first_visit))) = [1700000005000, 1700000005000] \<and>
   \<not> distinct (map e_id (log (data (run same_tick first_visit))))"
proof -
  have "map e_id (log (data (run same_tick first_visit))) = [1700000005000, 1700000005000]"
    by (simp add: same_tick_def run_def first_visit_def blank_def reset_def save_def
        addPlayer_def recordAction_def updateStats_def on_team_def
        on_stats_def teams_get_def teams_put_def initial_data_def Let_def createEmptyStats_def)
  then show ?thesis by simp
qed

section \<open>Restoring the snapshot (C8)\<close>

text \<open>
  The entry points only ever save sessions: after a run from a reset the snapshot in
  storage parses to a session.
\<close>

lemma exec_saved_session:
  assumes "\<exists>v. saved s = Parses (Session v)"
  shows "\<exists>v. saved (exec s c) = Parses (Session v)"
proof (cases c)
  case (RecordAction pid act extraData clk clock fo)
  show ?thesis
  proof (cases "findIndex (\<lambda>pl. p_id pl = pid) (players (data s))")
    case None
    then show ?thesis using RecordAction assms by (simp add: recordAction_def)
  next
    case (Some i)
    from recordAction_data [OF Some, of clk act clock extraData fo]
    show ?thesis using RecordAction assms by auto
  qed
next
  case (Reload clk stamp)
  from assms obtain v where "saved s = Parses (Session v)" by blast
  then show ?thesis using Reload
    by (simp add: page_load_def init_def truthy_item_def JSON_parse_def)
qed (use assms in \<open>auto simp: addPlayer_def togglePlayerActive_def adjustScore_def
      homeName_input_def visitorName_input_def reset_def save_def Let_def
      split: option.splits\<close>)

lemma run_saved_session: "\<exists>v. saved (run cs (reset now stamp s0)) = Parses (Session v)"
proof -
  have "(\<exists>v. saved s = Parses (Session v)) \<Longrightarrow> \<exists>v. saved (run cs s) = Parses (Session v)" for s
  proof (induction cs arbitrary: s)
    case Nil
    then show ?case by (simp add: run_def)
  next
    case (Cons c cs)
    then show ?case using exec_saved_session [of s c] by (simp add: run_def)
  qed
  then show ?thesis by (simp add: reset_def save_def)
qed

text \<open>
  C8, as amended. \<open>Store.init\<close> returns on every path: nothing it does is propagated.
  When the snapshot does not parse, the \<open>SyntaxError\<close> of \<open>JSON.parse\<close> is caught and
  the store is left as it was, data and storage: after a page load the session is the
  literal of the script (no players, an empty log, quarter 1, scores and fouls 0) and the
  load returns, and the snapshot stays in storage until the next \<open>save\<close> replaces it by
  the session of that moment. A snapshot that parses becomes \<open>Store.data\<close> as it is,
  whatever it parses to; nothing validates it. When it parses to a session, the session
  is adopted with any values; when it parses to a malformed value (\<open>null\<close>, \<open>{}\<close>), the
  value is adopted too, and the initialisation of the page that follows \<open>Store.init\<close>
  throws a \<open>TypeError\<close>.
\<close>

theorem restore_without_validation:
  "fst (init now stamp s) = Returned \<and>
   JSON_parse Corrupt = Inl SyntaxError \<and>
   init now stamp (s\<lparr>saved := Corrupt\<rparr>) = (Returned, Running (s\<lparr>saved := Corrupt\<rparr>)) \<and>
   page_load now stamp Corrupt = (Returned, Running \<lparr>data = initial_data, saved = Corrupt\<rparr>) \<and>
   players initial_data = [] \<and> log initial_data = [] \<and> quarter initial_data = 1 \<and>
   score (home (teams initial_data)) = 0 \<and> fouls (home (teams initial_data)) = 0 \<and>
   score (visitor (teams initial_data)) = 0 \<and> fouls (visitor (teams initial_data)) = 0 \<and>
   saved (save (s\<lparr>saved := Corrupt\<rparr>)) = Parses (Session (data s)) \<and>
   init now stamp (s\<lparr>saved := Parses (Session v)\<rparr>) =
     (Returned, Running (s\<lparr>data := v, saved := Parses (Session v)\<rparr>)) \<and>
   page_load now stamp (Parses (Session v)) =
     (Returned, Running \<lparr>data = v, saved = Parses (Session v)\<rparr>) \<and>
   init now stamp (s\<lparr>saved := Parses Malformed\<rparr>) = (Returned, Stuck (Parses Malformed)) \<and>
   page_load now stamp (Parses Malformed) = (Threw TypeError, Stuck (Parses Malformed))"
proof -
  have returns: "fst (init now stamp s) = Returned"
  proof (cases "truthy_item (saved s)")
    case True
    show ?thesis
    proof (cases "JSON_parse (saved s)")
      case (Inl e)
      then show ?thesis using True by (simp add: init_def)
    next
      case (Inr v)
      then show ?thesis using True by (cases v) (simp_all add: init_def)
    qed
  next
    case False
    then show ?thesis by (simp add: init_def)
  qed
  have corrupt: "init now stamp (s\<lparr>saved := Corrupt\<rparr>) = (Returned, Running (s\<lparr>saved := Corrupt\<rparr>))"
    "page_load now stamp Corrupt = (Returned, Running \<lparr>data = initial_data, saved = Corrupt\<rparr>)"
    by (simp_all add: page_load_def init_def truthy_item_def JSON_parse_def)
  have literal: "players initial_data = []" "log initial_data = []" "quarter initial_data = 1"
    "score (home (teams initial_data)) = 0" "fouls (home (teams initial_data)) = 0"
    "score (visitor (teams initial_data)) = 0" "fouls (visitor (teams initial_data)) = 0"
    by (simp_all add: initial_data_def)
  have overwritten: "saved (save (s\<lparr>saved := Corrupt\<rparr>)) = Parses (Session (data s))"
    by (simp add: save_def)
  have session: "init now stamp (s\<lparr>saved := Parses (Session v)\<rparr>) =
      (Returned, Running (s\<lparr>data := v, saved := Parses (Session v)\<rparr>))"
    "page_load now stamp (Parses (Session v)) =
      (Returned, Running \<lparr>data = v, saved = Parses (Session v)\<rparr>)"
    by (simp_all add: page_load_def init_def truthy_item_def JSON_parse_def)
  have malformed: "init now stamp (s\<lparr>saved := Parses Malformed\<rparr>) = (Returned, Stuck (Parses Malformed))"
    "page_load now stamp (Parses Malformed) = (Threw TypeError, Stuck (Parses Malformed))"
    by (simp_all add: page_load_def init_def truthy_item_def JSON_parse_def)
  have "JSON_parse Corrupt = Inl SyntaxError" by (simp add: JSON_parse_def)
  then show ?thesis
    using returns corrupt literal overwritten session malformed by simp
qed

text \<open>
  C8 as the specification states it fails: the snapshot \<open>tampered\<close> parses and is not a
  valid session (its player has points without a made shot, its log entry names a player
  that is not in the roster); the page load makes it the session instead of falling back
  to an empty one.
\<close>

theorem restore_adopts_invalid_snapshot:
  "page_load 1700000100000 ''2023-11-14T22:15:00.000Z'' (Parses (Session tampered)) =
     (Returned, Running \<lparr>data = tampered, saved = Parses (Session tampered)\<rparr>) \<and>
   players tampered \<noteq> [] \<and>
   \<not> points_ok (stats (players tampered ! 0)) \<and>
   playerId (log tampered ! 0) \<notin> p_id ` set (players tampered)"
  by (simp add: page_load_def init_def truthy_item_def JSON_parse_def tampered_def points_ok_def
      createEmptyStats_def)

section \<open>Adding a player (C9)\<close>

text \<open>
  C9, as amended. \<open>window.addPlayer\<close> with an empty number or an empty name returns
  without raising anything and leaves the store as it was, so no player is created; with
  two non-empty inputs it appends one player, with those inputs, an aggregate of zeros and
  \<open>active = false\<close>, and saves.
\<close>

theorem window_addPlayer_effect:
  "window_addPlayer num nm teamId newId s =
     (Returned,
      if num = [] \<or> nm = [] then s
      else save (s\<lparr>data := (data s)\<lparr>players := players (data s) @
        [\<lparr>p_id = newId, number = num, p_name = nm, p_team = teamId, active = False,
          stats = \<lparr>pts = 0, fg2m = 0, fg2a = 0, fg3m = 0, fg3a = 0, ftm = 0, fta = 0, orb = 0,
                   drb = 0, ast = 0, stl = 0, blk = 0, tov = 0, pf = 0, ofd = 0, time = 0\<rparr>\<rparr>]\<rparr>\<rparr>))"
  by (simp add: window_addPlayer_def addPlayer_def createEmptyStats_def)

theorem window_addPlayer_effect_witness:
  "window_addPlayer [] ''Ana'' ''home'' ''lox3k9a1'' first_visit = (Returned, first_visit) \<and>
   players (data (snd (window_addPlayer ''7'' ''Ana'' ''home'' ''lox3k9a1'' first_visit))) =
     [\<lparr>p_id = ''lox3k9a1'', number = ''7'', p_name = ''Ana'', p_team = ''home'', active = False,
       stats = createEmptyStats\<rparr>]"
  using window_addPlayer_effect [of "[]" "''Ana''" "''home''" "''lox3k9a1''" first_visit]
    window_addPlayer_effect [of "''7''" "''Ana''" "''home''" "''lox3k9a1''" first_visit]
  by (simp add: first_visit_def blank_def reset_def save_def createEmptyStats_def)

text \<open>
  C9 as the specification states it fails: the call with an empty jersey number is not
  rejected with an error; it returns.
\<close>

theorem window_addPlayer_empty_number_no_error:
  "fst (window_addPlayer [] ''Ana'' ''home'' ''lox3k9a1'' first_visit) = Returned"
  by (simp add: window_addPlayer_def)

section \<open>Advanced metrics (C7)\<close>

text \<open>
  The attempts of every aggregate of a session are counts: none is negative.
\<close>

lemma attempts_nonneg:
  "\<forall>p \<in> set (players (data (run cs (reset now stamp s0)))).
     0 \<le> fg2a (stats p) \<and> 0 \<le> fg3a (stats p) \<and> 0 \<le> fta (stats p)"
proof (rule roster_invariant [of "\<lambda>s. 0 \<le> fg2a s \<and> 0 \<le> fg3a s \<and> 0 \<le> fta s"])
  show "0 \<le> fg2a createEmptyStats \<and> 0 \<le> fg3a createEmptyStats \<and> 0 \<le> fta createEmptyStats"
    by (simp add: createEmptyStats_def)
  show "0 \<le> fg2a (stats_writes act s) \<and> 0 \<le> fg3a (stats_writes act s) \<and>
      0 \<le> fta (stats_writes act s)"
    if "0 \<le> fg2a s \<and> 0 \<le> fg3a s \<and> 0 \<le> fta s" for act s
    using that by (simp add: stats_writes_def)
qed







end
